theory Spec2Isabelle
  imports Main "HOL-Library.Sublist"
begin

section \<open>Text primitives\<close>

text \<open>
  A Python \<open>str\<close> is modelled as a \<open>string\<close>: the character \<open>c\<close> stands for the
  code point \<open>of_char c\<close>, so the model covers the texts whose code points are below
  256. The character classes below are the ones Python's \<open>str\<close> methods and the
  \<open>re\<close> module use for such code points.
\<close>

definition code :: "char \<Rightarrow> nat" where
  "code c = of_char c"

definition is_space :: "char \<Rightarrow> bool" where
  \<comment> \<open>\<open>str.isspace\<close>, also the class \<open>\s\<close>: TAB..CR, FS..US, SPACE, NEL, NBSP.\<close>
  "is_space c = (let n = code c in
     (9 \<le> n \<and> n \<le> 13) \<or> (28 \<le> n \<and> n \<le> 32) \<or> n = 133 \<or> n = 160)"

definition is_digit :: "char \<Rightarrow> bool" where
  \<comment> \<open>the class \<open>\d\<close>: decimal digits.\<close>
  "is_digit c = (let n = code c in 48 \<le> n \<and> n \<le> 57)"

definition is_word :: "char \<Rightarrow> bool" where
  \<comment> \<open>the class \<open>\w\<close>: \<open>str.isalnum\<close> or underscore.\<close>
  "is_word c = (let n = code c in
     (48 \<le> n \<and> n \<le> 57) \<or> (65 \<le> n \<and> n \<le> 90) \<or> n = 95 \<or> (97 \<le> n \<and> n \<le> 122)
     \<or> n = 170 \<or> n = 178 \<or> n = 179 \<or> n = 181 \<or> n = 185 \<or> n = 186
     \<or> (188 \<le> n \<and> n \<le> 190) \<or> (192 \<le> n \<and> n \<le> 214) \<or> (216 \<le> n \<and> n \<le> 246)
     \<or> 248 \<le> n)"

definition lower_char :: "char \<Rightarrow> char" where
  "lower_char c = (let n = code c in
     if (65 \<le> n \<and> n \<le> 90) \<or> (192 \<le> n \<and> n \<le> 214) \<or> (216 \<le> n \<and> n \<le> 222)
     then char_of (n + 32) else c)"

text \<open>\<open>str.upper\<close> maps the code point 223 to the two letters \<open>SS\<close>. The upper-case
  forms of the code points 181 and 255 are U+039C and U+0178, outside the modelled
  range: \<open>upper\<close> stands for \<open>str.upper\<close> on the texts that satisfy \<open>upper_in_range\<close>
  only, and it is used on no other text below.\<close>

definition upper_char :: "char \<Rightarrow> string" where
  "upper_char c = (let n = code c in
     if (97 \<le> n \<and> n \<le> 122) \<or> (224 \<le> n \<and> n \<le> 246) \<or> (248 \<le> n \<and> n \<le> 254)
     then [char_of (n - 32)]
     else if n = 223 then ''SS'' else [c])"

definition upper_in_range :: "string \<Rightarrow> bool" where
  "upper_in_range s = list_all (\<lambda>c. code c \<noteq> 181 \<and> code c \<noteq> 255) s"

definition lower :: "string \<Rightarrow> string" where
  "lower s = map lower_char s"

definition upper :: "string \<Rightarrow> string" where
  "upper s = concat (map upper_char s)"

definition lstrip :: "string \<Rightarrow> string" where
  "lstrip s = dropWhile is_space s"

definition rstrip :: "string \<Rightarrow> string" where
  "rstrip s = rev (dropWhile is_space (rev s))"

definition strip :: "string \<Rightarrow> string" where
  "strip s = rstrip (lstrip s)"

text \<open>\<open>str.split()\<close> with no argument: the maximal runs of non-whitespace characters.\<close>

function split :: "string \<Rightarrow> string list" where
  "split s = (case dropWhile is_space s of
                [] \<Rightarrow> []
              | c # cs \<Rightarrow> (c # takeWhile (\<lambda>x. \<not> is_space x) cs)
                          # split (dropWhile (\<lambda>x. \<not> is_space x) cs))"
  by pat_completeness auto
termination
proof (relation "measure length", goal_cases)
  case 1
  show ?case by simp
next
  case (2 s c cs)
  have "length (dropWhile (\<lambda>x. \<not> is_space x) cs) \<le> length cs"
    by (rule length_dropWhile_le)
  moreover have "length (dropWhile is_space s) \<le> length s"
    by (rule length_dropWhile_le)
  ultimately show ?case using 2 by simp
qed

declare split.simps [simp del]

text \<open>\<open>sep.join(parts)\<close>.\<close>

fun join :: "string \<Rightarrow> string list \<Rightarrow> string" where
  "join sep [] = []"
| "join sep [x] = x"
| "join sep (x # y # ys) = x @ sep @ join sep (y # ys)"

text \<open>\<open>xs[a:b]\<close> for list slicing with Python's treatment of negative and
  out-of-range bounds.\<close>

definition slice_index :: "nat \<Rightarrow> int \<Rightarrow> nat" where
  "slice_index n i = (if i < 0 then nat (max (i + int n) 0) else min (nat i) n)"

definition slice :: "'a list \<Rightarrow> int \<Rightarrow> int \<Rightarrow> 'a list" where
  "slice xs a b = (let i = slice_index (length xs) a; j = slice_index (length xs) b
                   in take (j - i) (drop i xs))"

section \<open>Regular expressions\<close>

text \<open>
  The patterns of the program use literals, the classes \<open>\s\<close>, \<open>\S\<close>, \<open>\d\<close> and
  bracket sets, the anchors \<open>^\<close>, \<open>$\<close> and \<open>\b\<close>, sequence, alternation and the
  greedy quantifiers \<open>?\<close>, \<open>*\<close>, \<open>+\<close> and \<open>{2,}\<close>. A position is the character before
  the cursor (\<open>None\<close> at the start of the text) and the text after it. The matcher
  returns the positions at which a match of the pattern started at the given position
  can end, in the order in which a backtracking engine tries them; the first one is
  the match that \<open>re\<close> reports.
\<close>

datatype regex =
    Epsilon
  | Chr char
  | Space
  | NonSpace
  | Digit
  | Cls "(char \<times> char) list"
  | Bol
  | Eol
  | WordB
  | Seq regex regex
  | Alt regex regex
  | Star regex

type_synonym pos = "char option \<times> string"

definition chr_eq :: "bool \<Rightarrow> char \<Rightarrow> char \<Rightarrow> bool" where
  \<comment> \<open>a literal of the pattern against a character of the text, under IGNORECASE or not\<close>
  "chr_eq ic c x = (if ic then lower_char c = lower_char x else c = x)"

definition in_cls :: "(char \<times> char) list \<Rightarrow> char \<Rightarrow> bool" where
  "in_cls rs x = list_ex (\<lambda>(a, b). code a \<le> code x \<and> code x \<le> code b) rs"

definition step :: "(char \<Rightarrow> bool) \<Rightarrow> pos \<Rightarrow> pos list" where
  "step P p = (case snd p of [] \<Rightarrow> [] | x # xs \<Rightarrow> if P x then [(Some x, xs)] else [])"

definition word_before :: "pos \<Rightarrow> bool" where
  "word_before p = (case fst p of None \<Rightarrow> False | Some c \<Rightarrow> is_word c)"

definition word_after :: "pos \<Rightarrow> bool" where
  "word_after p = (case snd p of [] \<Rightarrow> False | x # xs \<Rightarrow> is_word x)"

definition at_end :: "pos \<Rightarrow> bool" where
  \<comment> \<open>\<open>$\<close> without MULTILINE: the end of the text, or just before a final newline\<close>
  "at_end p = (snd p = [] \<or> snd p = [char_of (10::nat)])"

function ms :: "bool \<Rightarrow> regex \<Rightarrow> pos \<Rightarrow> pos list" where
  "ms ic Epsilon p = [p]"
| "ms ic (Chr c) p = step (chr_eq ic c) p"
| "ms ic Space p = step is_space p"
| "ms ic NonSpace p = step (\<lambda>x. \<not> is_space x) p"
| "ms ic Digit p = step is_digit p"
| "ms ic (Cls rs) p = step (in_cls rs) p"
| "ms ic Bol p = (if fst p = None then [p] else [])"
| "ms ic Eol p = (if at_end p then [p] else [])"
| "ms ic WordB p = (if word_before p \<noteq> word_after p then [p] else [])"
| "ms ic (Seq a b) p = concat (map (ms ic b) (ms ic a p))"
| "ms ic (Alt a b) p = ms ic a p @ ms ic b p"
| "ms ic (Star a) p =
     concat (map (\<lambda>q. if length (snd q) < length (snd p) then ms ic (Star a) q else [])
                 (ms ic a p)) @ [p]"
  by pat_completeness auto
termination
  by (relation "measures [\<lambda>(ic, r, p). size r, \<lambda>(ic, r, p). length (snd p)]") auto

lemmas ms_Star = ms.simps(12)
lemmas ms_base = ms.simps(1-11)
declare ms.simps [simp del]


text \<open>Derived forms: a literal string, a sequence of patterns, and the quantifiers
  \<open>?\<close>, \<open>+\<close> and \<open>{2,}\<close> (all greedy: the longer alternative is tried first).\<close>

primrec str :: "string \<Rightarrow> regex" where
  "str [] = Epsilon"
| "str (c # cs) = Seq (Chr c) (str cs)"

primrec seqs :: "regex list \<Rightarrow> regex" where
  "seqs [] = Epsilon"
| "seqs (r # rs) = Seq r (seqs rs)"

definition Opt :: "regex \<Rightarrow> regex" where
  "Opt r = Alt r Epsilon"

definition Plus :: "regex \<Rightarrow> regex" where
  "Plus r = Seq r (Star r)"

definition AtLeast2 :: "regex \<Rightarrow> regex" where
  "AtLeast2 r = Seq r (Seq r (Star r))"

text \<open>\<open>re.match\<close>: a match starting at the beginning of the text; the result is the
  index at which the match ends.\<close>

definition re_match :: "bool \<Rightarrow> regex \<Rightarrow> string \<Rightarrow> nat option" where
  "re_match ic r s = (case ms ic r (None, s) of
                        [] \<Rightarrow> None
                      | q # _ \<Rightarrow> Some (length s - length (snd q)))"

text \<open>\<open>re.search\<close>: the leftmost position at which the pattern matches; the result is
  the pair of the start and end indices of the match.\<close>

fun search_from :: "bool \<Rightarrow> regex \<Rightarrow> nat \<Rightarrow> pos \<Rightarrow> (nat \<times> nat) option" where
  "search_from ic r i (pv, s) =
     (case ms ic r (pv, s) of
        q # _ \<Rightarrow> Some (i, i + (length s - length (snd q)))
      | [] \<Rightarrow> (case s of
                 [] \<Rightarrow> None
               | x # xs \<Rightarrow> search_from ic r (Suc i) (Some x, xs)))"

definition re_search :: "bool \<Rightarrow> regex \<Rightarrow> string \<Rightarrow> (nat \<times> nat) option" where
  "re_search ic r s = search_from ic r 0 (None, s)"

text \<open>\<open>re.sub\<close>: the non-overlapping matches are replaced from left to right; the
  replacement is computed from the matched text. No pattern of the program matches the
  empty string; for completeness an empty match is replaced and the scan moves on by
  one character.\<close>

function sub_from :: "bool \<Rightarrow> regex \<Rightarrow> (string \<Rightarrow> string) \<Rightarrow> pos \<Rightarrow> string" where
  "sub_from ic r f (pv, s) =
     (case ms ic r (pv, s) of
        [] \<Rightarrow> (case s of [] \<Rightarrow> [] | x # xs \<Rightarrow> x # sub_from ic r f (Some x, xs))
      | q # _ \<Rightarrow>
          if length (snd q) < length s
          then f (take (length s - length (snd q)) s) @ sub_from ic r f q
          else f [] @ (case s of [] \<Rightarrow> [] | x # xs \<Rightarrow> x # sub_from ic r f (Some x, xs)))"
  by pat_completeness auto
termination
  by (relation "measure (\<lambda>(ic, r, f, p). length (snd p))") auto

declare sub_from.simps [simp del]

definition re_sub :: "bool \<Rightarrow> regex \<Rightarrow> (string \<Rightarrow> string) \<Rightarrow> string \<Rightarrow> string" where
  "re_sub ic r f s = sub_from ic r f (None, s)"

section \<open>Section classifier\<close>

definition DATA_AVAILABILITY_PATTERN :: regex where
  \<comment> \<open>\<open>^data\s*availability\<close>, the one entry of the exclude table without a final \<open>$\<close>\<close>
  "DATA_AVAILABILITY_PATTERN = seqs [Bol, str ''data'', Star Space, str ''availability'']"

definition EXCLUDE_SECTION_PATTERNS :: "regex list" where
  "EXCLUDE_SECTION_PATTERNS =
   [ seqs [Bol, str ''reference'', Opt (Chr CHR ''s''), Eol],
     seqs [Bol, str ''bibliography'', Eol],
     seqs [Bol, str ''acknowledg'', Opt (Chr CHR ''m''), str ''ent'', Opt (Chr CHR ''s''), Eol],
     seqs [Bol, str ''acknowled'', Opt (Chr CHR ''g''), str ''ment'', Opt (Chr CHR ''s''), Eol],
     seqs [Bol, str ''author'', Star Space, str ''contribution'', Opt (Chr CHR ''s''), Eol],
     seqs [Bol, str ''author'', Opt (Chr CHR ''s''), Star Space, str ''contribution'',
           Opt (Chr CHR ''s''), Eol],
     seqs [Bol, str ''contributor'', Opt (Chr CHR ''s''), Eol],
     seqs [Bol, str ''contributor'', Star Space, str ''information'', Eol],
     seqs [Bol, str ''conflict'', Opt (Chr CHR ''s''), Star Space, str ''of'', Star Space,
           str ''interest'', Opt (Chr CHR ''s''), Eol],
     seqs [Bol, str ''competing'', Star Space, str ''interest'', Opt (Chr CHR ''s''), Eol],
     seqs [Bol, str ''declaration'', Opt (Chr CHR ''s''), Eol],
     seqs [Bol, str ''disclosure'', Eol],
     seqs [Bol, str ''funding'', Eol],
     seqs [Bol, str ''funding'', Star Space,
           Opt (Alt (seqs [str ''source'', Opt (Chr CHR ''s'')]) (str ''information'')), Eol],
     seqs [Bol, str ''financial'', Star Space, str ''disclosure'', Eol],
     seqs [Bol, str ''supplementary'', Star Space,
           Opt (Alt (seqs [str ''material'', Opt (Chr CHR ''s'')])
                    (Alt (str ''data'') (str ''information''))), Eol],
     seqs [Bol, str ''supporting'', Star Space, str ''information'', Eol],
     seqs [Bol, str ''appendi'', Alt (str ''x'') (str ''ces''), Eol],
     DATA_AVAILABILITY_PATTERN,
     seqs [Bol, str ''ethics'', Star Space, Opt (Alt (str ''statement'') (str ''approval'')), Eol],
     seqs [Bol, str ''ethical'', Star Space, str ''approval'', Eol],
     seqs [Bol, str ''footnote'', Opt (Chr CHR ''s''), Eol],
     seqs [Bol, str ''abbreviation'', Opt (Chr CHR ''s''), Eol],
     seqs [Bol, str ''associated'', Star Space, str ''data'', Eol] ]"

definition MAIN_CONTENT_PATTERNS :: "regex list" where
  "MAIN_CONTENT_PATTERNS =
   [ seqs [Bol, str ''abstract'', Eol],
     seqs [Bol, str ''highlight'', Opt (Chr CHR ''s''), Eol],
     seqs [Bol, str ''background'', Eol],
     seqs [Bol, str ''introduction'', Eol],
     seqs [Bol, str ''method'', Opt (Chr CHR ''s''), Eol],
     seqs [Bol, str ''material'', Opt (Chr CHR ''s''), Star Space,
           Alt (str ''and'') (str ''&''), Star Space, str ''method'', Opt (Chr CHR ''s''), Eol],
     seqs [Bol, str ''patient'', Opt (Chr CHR ''s''), Star Space,
           Alt (str ''and'') (str ''&''), Star Space, str ''method'', Opt (Chr CHR ''s''), Eol],
     seqs [Bol, str ''study'', Star Space, str ''design'', Eol],
     seqs [Bol, str ''result'', Opt (Chr CHR ''s''), Eol],
     seqs [Bol, str ''finding'', Opt (Chr CHR ''s''), Eol],
     seqs [Bol, str ''discussion'', Eol],
     seqs [Bol, str ''conclusion'', Opt (Chr CHR ''s''), Eol],
     seqs [Bol, str ''summary'', Eol] ]"

text \<open>The loop \<open>for pattern in ...: if re.match(pattern, title_clean, re.IGNORECASE):
  return True\<close>, followed by \<open>return False\<close>.\<close>

fun any_match :: "regex list \<Rightarrow> string \<Rightarrow> bool" where
  "any_match [] t = False"
| "any_match (p # ps) t = (if re_match True p t \<noteq> None then True else any_match ps t)"

definition is_exclude_section :: "string \<Rightarrow> bool" where
  "is_exclude_section title =
     (if title = [] then False
      else let title_clean = lower (strip title)
           in any_match EXCLUDE_SECTION_PATTERNS title_clean)"

definition is_main_content_section :: "string \<Rightarrow> bool" where
  "is_main_content_section title =
     (if title = [] then False
      else let title_clean = lower (strip title)
           in any_match MAIN_CONTENT_PATTERNS title_clean)"

section \<open>Normalizer\<close>

definition NL :: char where
  "NL = char_of (10::nat)"

definition ORCID_PATTERN :: regex where
  \<comment> \<open>\<open>ORCID\s*(ID)?\s*:\s*\S+\<close>, used with IGNORECASE\<close>
  "ORCID_PATTERN = seqs [str ''ORCID'', Star Space, Opt (str ''ID''), Star Space,
                         Chr CHR '':'', Star Space, Plus NonSpace]"

definition ORCID_URL_PATTERN :: regex where
  \<comment> \<open>\<open>https?://orcid\.org/\S+\<close>\<close>
  "ORCID_URL_PATTERN = seqs [str ''http'', Opt (Chr CHR ''s''), str ''://orcid.org/'',
                             Plus NonSpace]"

definition EMAIL_PATTERN :: regex where
  \<comment> \<open>\<open>\b[A-Za-z0-9._%+-]+@[A-Za-z0-9.-]+\.[A-Z|a-z]{2,}\b\<close>\<close>
  "EMAIL_PATTERN =
     seqs [WordB,
           Plus (Cls [(CHR ''A'', CHR ''Z''), (CHR ''a'', CHR ''z''), (CHR ''0'', CHR ''9''),
                      (CHR ''.'', CHR ''.''), (CHR ''_'', CHR ''_''), (CHR ''%'', CHR ''%''),
                      (CHR ''+'', CHR ''+''), (CHR ''-'', CHR ''-'')]),
           Chr CHR ''@'',
           Plus (Cls [(CHR ''A'', CHR ''Z''), (CHR ''a'', CHR ''z''), (CHR ''0'', CHR ''9''),
                      (CHR ''.'', CHR ''.''), (CHR ''-'', CHR ''-'')]),
           Chr CHR ''.'',
           AtLeast2 (Cls [(CHR ''A'', CHR ''Z''), (CHR ''|'', CHR ''|''), (CHR ''a'', CHR ''z'')]),
           WordB]"

definition FIGURE_GROUP :: regex where
  \<comment> \<open>the group \<open>(Figure|Table)\<close>\<close>
  "FIGURE_GROUP = Alt (str ''Figure'') (str ''Table'')"

definition FIGURE_PATTERN :: regex where
  \<comment> \<open>\<open>(Figure|Table)\s*\d+\.?\s*(Open in a new tab)?\<close>, used with IGNORECASE\<close>
  "FIGURE_PATTERN = seqs [FIGURE_GROUP, Star Space, Plus Digit, Opt (Chr CHR ''.''),
                          Star Space, Opt (str ''Open in a new tab'')]"

definition figure_repl :: "string \<Rightarrow> string" where
  \<comment> \<open>the replacement \<open>\1\<close> followed by a space: group 1 is the part of the matched text
      that the leading group consumed\<close>
  "figure_repl m = (case re_match True FIGURE_GROUP m of
                      None \<Rightarrow> []
                    | Some n \<Rightarrow> take n m) @ '' ''"

definition WS_PATTERN :: regex where
  \<comment> \<open>\<open>\s+\<close>\<close>
  "WS_PATTERN = Plus Space"

definition BLANK_LINES_PATTERN :: regex where
  \<comment> \<open>\<open>\n\s*\n\<close>\<close>
  "BLANK_LINES_PATTERN = seqs [Chr NL, Star Space, Chr NL]"

definition clean_text_v2 :: "string \<Rightarrow> string" where
  "clean_text_v2 text =
     (if text = [] then []
      else let text = re_sub True ORCID_PATTERN (\<lambda>m. []) text;
               text = re_sub False ORCID_URL_PATTERN (\<lambda>m. []) text;
               text = re_sub False EMAIL_PATTERN (\<lambda>m. []) text;
               text = re_sub True FIGURE_PATTERN figure_repl text;
               text = re_sub False WS_PATTERN (\<lambda>m. '' '') text;
               text = re_sub False BLANK_LINES_PATTERN (\<lambda>m. [NL, NL]) text
           in strip text)"

section \<open>Chunker\<close>

text \<open>
  The \<open>while\<close> loop of \<open>chunk_text_v2\<close>. The parameters are Python integers, and
  for \<open>chunk_size_words \<le> overlap_words\<close> the loop need not end, so the loop is a
  partial function: \<open>None\<close> stands for a call that does not return.
\<close>

partial_function (option) chunk_loop ::
  "string list \<Rightarrow> int \<Rightarrow> int \<Rightarrow> int \<Rightarrow> string list \<Rightarrow> string list option" where
  "chunk_loop words chunk_size_words overlap_words start chunks =
     (if start < int (length words) then
        let end = min (start + chunk_size_words) (int (length words));
            chunk = join '' '' (slice words start end);
            chunks = chunks @ [chunk]
        in if end = int (length words) then Some chunks
           else chunk_loop words chunk_size_words overlap_words
                  (start + (chunk_size_words - overlap_words)) chunks
      else Some chunks)"

declare chunk_loop.simps [code]

definition chunk_text_v2 :: "string \<Rightarrow> int \<Rightarrow> int \<Rightarrow> string list option" where
  "chunk_text_v2 text chunk_size_words overlap_words =
     (let words = split text
      in if int (length words) \<le> chunk_size_words then Some [text]
         else chunk_loop words chunk_size_words overlap_words 0 [])"

section \<open>Parsed document\<close>

text \<open>
  The markup is parsed by an external library. A parsed document is represented by the
  answers of that library to the queries the three strategies make:
  \<^item> \<open>main_body\<close>: the direct child sections of the main-body container, in document
    order, or \<open>None\<close> when no container is found; each section with the stripped text of
    its first level-2/3/4 heading (empty when it has none) and its own flattened text;
  \<^item> \<open>headings\<close>: the level-2/3 headings in document order, each with its stripped text
    and the following sibling elements (tag name and flattened text);
  \<^item> \<open>article\<close>: the generic article container after the removal of the non-content
    elements, or \<open>None\<close>: its level-1 to level-4 headings in document order, each with
    its stripped text and the flattened text the container has once that heading and
    its following siblings are removed, and the flattened text of the whole container.
\<close>

record child_section =
  section_title :: string
  section_text :: string

record heading =
  heading_text :: string
  next_siblings :: "(string \<times> string) list"

record article =
  article_headings :: "(string \<times> string) list"
  article_text :: string

record soup =
  main_body :: "child_section list option"
  headings :: "heading list"
  article :: "article option"

section \<open>Console and transports\<close>

text \<open>
  The console and the two transports are external. An exception is represented by its
  message (\<open>str(e)\<close>) and its traceback text (\<open>traceback.format_exc()\<close>).

  Every call of \<open>console.print\<close> either returns or raises; the markup of the printed
  line is interpreted by the console library, which raises on some texts. A printed
  line is represented by the call site together with the values interpolated into it,
  and the console by the function that tells, for a line, whether printing it raises
  and what. The exceptions of the console are ordinary exceptions (caught by
  \<open>except Exception\<close>) and are not exceptions of the \<open>requests\<close> library.

  The outcome of the HTTP GET is a response that passed \<open>raise_for_status\<close> with its
  body, a timeout, an HTTP error status, another \<open>requests\<close> exception with its
  message, or an exception of another kind, which \<open>fetch_html\<close> does not catch. The
  outcome of the Selenium transport is the page source or an exception with its
  message. A scraper is its \<open>use_selenium\<close> flag together with the behaviour of the
  console, of the transports and of the parser. The calls of the transports and of the
  strategies are recorded as a list of events.
\<close>

datatype exn = Exn (exn_message: string) (exn_traceback: string)

datatype line =
    RequestsSucceeded nat
  | ContentTooShort nat
  | RequestsTimeout
  | HttpErrorStatus nat
  | RequestsFailed string
  | AttemptingSelenium
  | SeleniumSucceeded nat
  | SeleniumFailed string
  | FoundContainer
  | StoppedAt string
  | Extracted string nat
  | Fetching string
  | Method1Start
  | Method1Succeeded nat nat
  | Method2Start
  | Method2Succeeded nat nat
  | Method3Start
  | FallbackSucceeded nat
  | ExceptionLine string

datatype http_outcome =
    Response string
  | Timeout
  | HTTPError nat
  | RequestException string
  | OtherException exn

datatype selenium_outcome =
    PageSource string
  | SeleniumException string

datatype event =
    HttpGet string
  | SeleniumGet string
  | Method1
  | Method2
  | Method3

record scraper =
  use_selenium :: bool
  console_print :: "line \<Rightarrow> exn option"
  http_get :: "string \<Rightarrow> http_outcome"
  selenium_get :: "string \<Rightarrow> selenium_outcome"
  parse :: "string \<Rightarrow> soup"

section \<open>Extraction strategies\<close>

text \<open>Strategy 1: the loop over the sections carries \<open>content_parts\<close> and
  \<open>sections_found\<close>; \<open>break\<close> returns them as they are. The result is \<open>Inl\<close> of the
  exception when a print raises.\<close>

fun method1_loop ::
  "scraper \<Rightarrow> child_section list \<Rightarrow> string list \<Rightarrow> string list
     \<Rightarrow> exn + (string list \<times> string list)" where
  "method1_loop sc [] content_parts sections_found = Inr (content_parts, sections_found)"
| "method1_loop sc (s # ss) content_parts sections_found =
     (if section_title s \<noteq> [] \<and> is_exclude_section (section_title s)
      then (case console_print sc (StoppedAt (section_title s)) of
              Some e \<Rightarrow> Inl e
            | None \<Rightarrow> Inr (content_parts, sections_found))
      else if section_text s \<noteq> [] \<and> length (section_text s) > 50
      then if section_title s \<noteq> []
           then (case console_print sc
                        (Extracted (take 40 (section_title s)) (length (section_text s))) of
                   Some e \<Rightarrow> Inl e
                 | None \<Rightarrow> method1_loop sc ss (content_parts @ [section_text s])
                             (sections_found @ [section_title s]))
           else method1_loop sc ss (content_parts @ [section_text s]) sections_found
      else method1_loop sc ss content_parts sections_found)"

definition extract_method1_main_body ::
  "scraper \<Rightarrow> soup \<Rightarrow> exn + (string option \<times> string list)" where
  "extract_method1_main_body sc sp =
     (case main_body sp of
        None \<Rightarrow> Inr (None, [''main-article-body not found''])
      | Some secs \<Rightarrow>
          (case console_print sc FoundContainer of
             Some e \<Rightarrow> Inl e
           | None \<Rightarrow>
               (case method1_loop sc secs [] [] of
                  Inl e \<Rightarrow> Inl e
                | Inr (content_parts, sections_found) \<Rightarrow>
                    if content_parts \<noteq> []
                    then Inr (Some (join '' '' content_parts), sections_found)
                    else Inr (None, sections_found))))"

text \<open>Strategy 2: the inner \<open>while\<close> loop walks the following siblings of a heading up
  to the next level-2/3 heading and keeps the non-empty texts.\<close>

fun sibling_content :: "(string \<times> string) list \<Rightarrow> string list \<Rightarrow> string list" where
  "sibling_content [] content = content"
| "sibling_content ((name, text) # rest) content =
     (if name = ''h2'' \<or> name = ''h3'' then content
      else sibling_content rest (if text \<noteq> [] then content @ [text] else content))"

fun method2_loop ::
  "scraper \<Rightarrow> heading list \<Rightarrow> bool \<Rightarrow> string list \<Rightarrow> string list
     \<Rightarrow> exn + (string list \<times> string list)" where
  "method2_loop sc [] start_found content_parts sections_found =
     Inr (content_parts, sections_found)"
| "method2_loop sc (h # hs) start_found content_parts sections_found =
     (if is_exclude_section (heading_text h)
      then (case console_print sc (StoppedAt (heading_text h)) of
              Some e \<Rightarrow> Inl e
            | None \<Rightarrow> Inr (content_parts, sections_found))
      else let start_found = (if is_main_content_section (heading_text h) then True
                              else start_found)
           in if start_found
              then let content = sibling_content (next_siblings h) []
                   in method2_loop sc hs start_found
                        (if content \<noteq> []
                         then content_parts @ [heading_text h @ [NL] @ join '' '' content]
                         else content_parts)
                        (sections_found @ [heading_text h])
              else method2_loop sc hs start_found content_parts sections_found)"

definition extract_method2_heading ::
  "scraper \<Rightarrow> soup \<Rightarrow> exn + (string option \<times> string list)" where
  "extract_method2_heading sc sp =
     (case method2_loop sc (headings sp) False [] [] of
        Inl e \<Rightarrow> Inl e
      | Inr (content_parts, sections_found) \<Rightarrow>
          if content_parts \<noteq> [] then Inr (Some (join [NL, NL] content_parts), sections_found)
          else Inr (None, sections_found))"

text \<open>Strategy 3: the first heading classified as excluded is removed together with its
  following siblings; the flattened text is then cut at the first marker pattern, in
  the order of the list, that is found anywhere in it. It prints nothing.\<close>

fun method3_cut :: "(string \<times> string) list \<Rightarrow> string \<Rightarrow> string" where
  "method3_cut [] whole = whole"
| "method3_cut ((title, cut_text) # hs) whole =
     (if is_exclude_section title then cut_text else method3_cut hs whole)"

definition MARKER_PATTERNS :: "regex list" where
  \<comment> \<open>\<open>\bReferences\b\<close>, \<open>\bBibliography\b\<close>, \<open>\bFootnotes\b\<close>, used with IGNORECASE\<close>
  "MARKER_PATTERNS =
   [ seqs [WordB, str ''References'', WordB],
     seqs [WordB, str ''Bibliography'', WordB],
     seqs [WordB, str ''Footnotes'', WordB] ]"

fun truncate_markers :: "regex list \<Rightarrow> string \<Rightarrow> string" where
  "truncate_markers [] text = text"
| "truncate_markers (p # ps) text =
     (case re_search True p text of
        Some (i, j) \<Rightarrow> take i text
      | None \<Rightarrow> truncate_markers ps text)"

definition extract_method3_fallback :: "soup \<Rightarrow> string option \<times> string list" where
  "extract_method3_fallback sp =
     (let sections_found = [''[Fallback mode]'']
      in case article sp of
           None \<Rightarrow> (None, sections_found)
         | Some a \<Rightarrow>
             let text = method3_cut (article_headings a) (article_text a);
                 text = truncate_markers MARKER_PATTERNS text
             in if length text > 500 then (Some (strip text), sections_found)
                else (None, sections_found))"

section \<open>Fetcher\<close>

text \<open>The result of \<open>fetch_html\<close> is the pair of the optional markup and the optional
  error message, or \<open>Inl\<close> of the exception that leaves the function; with it come the
  events of the call. \<open>print_then\<close> is a print followed by the rest of the function:
  when the print raises, the exception leaves the function.\<close>

type_synonym fetch_result = "exn + (string option \<times> string option)"

definition print_then ::
  "scraper \<Rightarrow> line \<Rightarrow> event list \<Rightarrow> (exn + 'a) \<times> event list \<Rightarrow> (exn + 'a) \<times> event list" where
  "print_then sc l ev rest = (case console_print sc l of
                                Some e \<Rightarrow> (Inl e, ev)
                              | None \<Rightarrow> rest)"

definition selenium_failed :: "scraper \<Rightarrow> string \<Rightarrow> event list \<Rightarrow> fetch_result \<times> event list" where
  \<comment> \<open>the handler \<open>except Exception as e\<close> of the Selenium block\<close>
  "selenium_failed sc msg ev =
     print_then sc (SeleniumFailed (take 50 msg)) ev
       (Inr (None, Some (''Selenium failed: '' @ msg)), ev)"

definition selenium_fallback :: "scraper \<Rightarrow> string \<Rightarrow> event list \<Rightarrow> fetch_result \<times> event list" where
  "selenium_fallback sc url ev =
     (if use_selenium sc then
        (case console_print sc AttemptingSelenium of
           Some e \<Rightarrow> selenium_failed sc (exn_message e) ev
         | None \<Rightarrow>
             (case selenium_get sc url of
                PageSource html \<Rightarrow>
                  if length html > 10000
                  then (case console_print sc (SeleniumSucceeded (length html div 1024)) of
                          Some e \<Rightarrow> selenium_failed sc (exn_message e) (ev @ [SeleniumGet url])
                        | None \<Rightarrow> (Inr (Some html, None), ev @ [SeleniumGet url]))
                  else (Inr (None, Some ''Unable to fetch page content''), ev @ [SeleniumGet url])
              | SeleniumException msg \<Rightarrow> selenium_failed sc msg (ev @ [SeleniumGet url])))
      else (Inr (None, Some ''Unable to fetch page content''), ev))"

definition page_url :: "string \<Rightarrow> string" where
  "page_url ident = ''https://pmc.ncbi.nlm.nih.gov/articles/'' @ ident @ ''/''"

definition fetch_html :: "scraper \<Rightarrow> string \<Rightarrow> fetch_result \<times> event list" where
  "fetch_html sc ident =
     (let url = page_url ident
      in case http_get sc url of
           Response text \<Rightarrow>
             if length text > 10000
             then print_then sc (RequestsSucceeded (length text div 1024)) [HttpGet url]
                    (Inr (Some text, None), [HttpGet url])
             else print_then sc (ContentTooShort (length text)) [HttpGet url]
                    (selenium_fallback sc url [HttpGet url])
         | Timeout \<Rightarrow>
             print_then sc RequestsTimeout [HttpGet url] (selenium_fallback sc url [HttpGet url])
         | HTTPError status_code \<Rightarrow>
             if status_code = 404
             then (Inr (None, Some (''Article not found (404): '' @ ident)), [HttpGet url])
             else print_then sc (HttpErrorStatus status_code) [HttpGet url]
                    (selenium_fallback sc url [HttpGet url])
         | RequestException msg \<Rightarrow>
             print_then sc (RequestsFailed (take 50 msg)) [HttpGet url]
               (selenium_fallback sc url [HttpGet url])
         | OtherException e \<Rightarrow> (Inl e, [HttpGet url]))"

section \<open>Extraction result\<close>

datatype ExtractionStatus = SUCCESS | PARTIAL | FAILED | NO_PMCID

record ExtractionResult =
  pmcid :: string
  status :: ExtractionStatus
  full_text :: "string option"
  full_text_chunks :: "string list option"
  error_message :: "string option"
  method_used :: "string option"
  sections_found :: "string list option"
  char_count :: nat
  word_count :: nat

definition new_result :: "string \<Rightarrow> ExtractionStatus \<Rightarrow> ExtractionResult" where
  \<comment> \<open>the constructor with the defaults of the data class for the other fields\<close>
  "new_result ident st =
     \<lparr> pmcid = ident, status = st, full_text = None, full_text_chunks = None,
       error_message = None, method_used = None, sections_found = None,
       char_count = 0, word_count = 0 \<rparr>"

definition truthy :: "string option \<Rightarrow> string option" where
  \<comment> \<open>the text when the optional text counts as true (neither \<open>None\<close> nor empty)\<close>
  "truthy x = (case x of None \<Rightarrow> None | Some t \<Rightarrow> if t = [] then None else Some t)"

definition gate :: "nat \<Rightarrow> string option \<Rightarrow> string option" where
  \<comment> \<open>\<open>text and len(text) > n\<close>: the candidate when it passes the gate\<close>
  "gate n x = (case truthy x of
                 None \<Rightarrow> None
               | Some t \<Rightarrow> if length t > n then Some t else None)"

type_synonym outcome = "(exn + ExtractionResult) \<times> event list"

definition accept ::
  "scraper \<Rightarrow> string \<Rightarrow> ExtractionStatus \<Rightarrow> string \<Rightarrow> (nat \<Rightarrow> line) \<Rightarrow> string \<Rightarrow> string list
     \<Rightarrow> event list \<Rightarrow> outcome option" where
  \<comment> \<open>the block run when a strategy passes its gate: the candidate is normalized, the
      success line (which shows the length of the normalized text) is printed, and the
      result is built, the normalized text chunked with the default window and overlap\<close>
  "accept sc ident st method succeeded text secs ev =
     (let clean = clean_text_v2 text
      in case console_print sc (succeeded (length clean)) of
           Some e \<Rightarrow> Some (Inl e, ev)
         | None \<Rightarrow>
             (case chunk_text_v2 clean 4000 1000 of
                None \<Rightarrow> None
              | Some chunks \<Rightarrow>
                  Some (Inr ((new_result ident st)
                          \<lparr> full_text := Some clean, full_text_chunks := Some chunks,
                            method_used := Some method, sections_found := Some secs,
                            char_count := length clean, word_count := length (split clean) \<rparr>),
                        ev)))"

text \<open>The three strategies in turn, from the print that announces strategy 1 to the
  last \<open>return\<close> of the \<open>try\<close> block. An exception raised on the way is the result.\<close>

definition run_method3 :: "scraper \<Rightarrow> string \<Rightarrow> soup \<Rightarrow> event list \<Rightarrow> outcome option" where
  "run_method3 sc ident sp ev =
     (case console_print sc Method3Start of
        Some e \<Rightarrow> Some (Inl e, ev)
      | None \<Rightarrow>
          (case extract_method3_fallback sp of (text3, sections3) \<Rightarrow>
            (case gate 500 text3 of
               Some t \<Rightarrow> accept sc ident PARTIAL ''method3_fallback'' FallbackSucceeded
                           t sections3 (ev @ [Method3])
             | None \<Rightarrow>
                 Some (Inr ((new_result ident FAILED)
                         \<lparr> error_message :=
                             Some ''All extraction methods failed, page structure may be non-standard'' \<rparr>),
                       ev @ [Method3]))))"

definition run_method2 :: "scraper \<Rightarrow> string \<Rightarrow> soup \<Rightarrow> event list \<Rightarrow> outcome option" where
  "run_method2 sc ident sp ev =
     (case console_print sc Method2Start of
        Some e \<Rightarrow> Some (Inl e, ev)
      | None \<Rightarrow>
          (case extract_method2_heading sc sp of
             Inl e \<Rightarrow> Some (Inl e, ev @ [Method2])
           | Inr (text2, sections2) \<Rightarrow>
               (case gate 1000 text2 of
                  Some t \<Rightarrow> accept sc ident SUCCESS ''method2_heading''
                              (Method2Succeeded (length sections2)) t sections2 (ev @ [Method2])
                | None \<Rightarrow> run_method3 sc ident sp (ev @ [Method2]))))"

definition run_chain :: "scraper \<Rightarrow> string \<Rightarrow> soup \<Rightarrow> event list \<Rightarrow> outcome option" where
  "run_chain sc ident sp ev =
     (case console_print sc Method1Start of
        Some e \<Rightarrow> Some (Inl e, ev)
      | None \<Rightarrow>
          (case extract_method1_main_body sc sp of
             Inl e \<Rightarrow> Some (Inl e, ev @ [Method1])
           | Inr (text1, sections1) \<Rightarrow>
               (case gate 1000 text1 of
                  Some t \<Rightarrow> accept sc ident SUCCESS ''method1_main_body''
                              (Method1Succeeded (length sections1)) t sections1 (ev @ [Method1])
                | None \<Rightarrow> run_method2 sc ident sp (ev @ [Method1]))))"

definition normalized_id :: "string \<Rightarrow> string" where
  \<comment> \<open>the identifier is trimmed, prefixed with \<open>PMC\<close> when it does not start with it
      (whatever the case), and upper-cased\<close>
  "normalized_id ident =
     (let ident = strip ident;
          ident = (if \<not> prefix ''PMC'' (upper ident) then ''PMC'' @ ident else ident)
      in upper ident)"

text \<open>The body of the \<open>try\<close> block, and the handler \<open>except Exception as e\<close>: it prints
  the message and returns a failure that carries the message and the first 500
  characters of the traceback text; when its own print raises, that exception leaves
  \<open>extract_full_text\<close>. The print of the line \<open>Fetching\<close> stands before the \<open>try\<close>.\<close>

definition try_body :: "scraper \<Rightarrow> string \<Rightarrow> outcome option" where
  "try_body sc ident =
     (case fetch_html sc ident of
        (Inl e, ev) \<Rightarrow> Some (Inl e, ev)
      | (Inr (html, error), ev) \<Rightarrow>
          (case truthy html of
             None \<Rightarrow>
               Some (Inr ((new_result ident FAILED)
                       \<lparr> error_message :=
                           (case truthy error of
                              Some e \<Rightarrow> Some e
                            | None \<Rightarrow> Some ''Unable to fetch HTML'') \<rparr>), ev)
           | Some h \<Rightarrow> run_chain sc ident (parse sc h) ev))"

definition handle_exception :: "scraper \<Rightarrow> string \<Rightarrow> outcome option \<Rightarrow> outcome option" where
  "handle_exception sc ident body =
     (case body of
        None \<Rightarrow> None
      | Some (Inr r, ev) \<Rightarrow> Some (Inr r, ev)
      | Some (Inl e, ev) \<Rightarrow>
          (case console_print sc (ExceptionLine (exn_message e)) of
             Some e' \<Rightarrow> Some (Inl e', ev)
           | None \<Rightarrow>
               Some (Inr ((new_result ident FAILED)
                       \<lparr> error_message :=
                           Some (''Exception: '' @ exn_message e @ [NL]
                                 @ take 500 (exn_traceback e)) \<rparr>), ev)))"

definition extract_full_text :: "scraper \<Rightarrow> string \<Rightarrow> outcome option" where
  "extract_full_text sc ident =
     (if ident = [] then
        Some (Inr ((new_result [] NO_PMCID) \<lparr> error_message := Some ''PMCID is empty'' \<rparr>), [])
      else
        let ident = normalized_id ident
        in case console_print sc (Fetching ident) of
             Some e \<Rightarrow> Some (Inl e, [])
           | None \<Rightarrow> handle_exception sc ident (try_body sc ident))"

section \<open>The claims in the words of the specification\<close>

text \<open>A pattern fully matches a text when some way of matching it from the start of the
  text ends at the end of the text.\<close>

definition fullmatch :: "bool \<Rightarrow> regex \<Rightarrow> string \<Rightarrow> bool" where
  "fullmatch ic r s = list_ex (\<lambda>q. snd q = []) (ms ic r (None, s))"

text \<open>The patterns whose last item is the anchor \<open>$\<close>.\<close>

fun ends_with_Eol :: "regex \<Rightarrow> bool" where
  "ends_with_Eol (Seq a Epsilon) = (a = Eol)"
| "ends_with_Eol (Seq a b) = ends_with_Eol b"
| "ends_with_Eol r = False"

definition is_excluded_fullmatch :: "string \<Rightarrow> bool" where
  \<comment> \<open>the trimmed, lower-cased title fully matches some pattern of the exclude table\<close>
  "is_excluded_fullmatch title =
     list_ex (\<lambda>p. fullmatch True p (lower (strip title))) EXCLUDE_SECTION_PATTERNS"

text \<open>Strategy 2 as the specification words it: an excluded heading ends the scan only
  once collection has begun.\<close>

fun claimed_method2_loop ::
  "scraper \<Rightarrow> heading list \<Rightarrow> bool \<Rightarrow> string list \<Rightarrow> string list
     \<Rightarrow> exn + (string list \<times> string list)" where
  "claimed_method2_loop sc [] start_found parts found = Inr (parts, found)"
| "claimed_method2_loop sc (h # hs) start_found parts found =
     (if start_found \<and> is_exclude_section (heading_text h)
      then (case console_print sc (StoppedAt (heading_text h)) of
              Some e \<Rightarrow> Inl e
            | None \<Rightarrow> Inr (parts, found))
      else let start_found = (if is_main_content_section (heading_text h) then True
                              else start_found)
           in if start_found
              then let content = sibling_content (next_siblings h) []
                   in claimed_method2_loop sc hs start_found
                        (if content \<noteq> []
                         then parts @ [heading_text h @ [NL] @ join '' '' content]
                         else parts)
                        (found @ [heading_text h])
              else claimed_method2_loop sc hs start_found parts found)"

definition claimed_method2_heading ::
  "scraper \<Rightarrow> soup \<Rightarrow> exn + (string option \<times> string list)" where
  "claimed_method2_heading sc sp =
     (case claimed_method2_loop sc (headings sp) False [] [] of
        Inl e \<Rightarrow> Inl e
      | Inr (parts, found) \<Rightarrow>
          if parts \<noteq> [] then Inr (Some (join [NL, NL] parts), found)
          else Inr (None, found))"

text \<open>The headings strategy 2 collects: those before the first excluded heading, from
  the first main-content heading among them on; and the part a collected heading
  contributes.\<close>

definition collected :: "heading list \<Rightarrow> heading list" where
  "collected hs =
     dropWhile (\<lambda>h. \<not> is_main_content_section (heading_text h))
       (takeWhile (\<lambda>h. \<not> is_exclude_section (heading_text h)) hs)"

definition heading_content :: "heading \<Rightarrow> string list" where
  "heading_content h = sibling_content (next_siblings h) []"

definition heading_part :: "heading \<Rightarrow> string" where
  "heading_part h = heading_text h @ [NL] @ join '' '' (heading_content h)"

text \<open>The first heading classified as excluded, if there is one.\<close>

definition first_excluded :: "heading list \<Rightarrow> heading option" where
  "first_excluded hs = find (\<lambda>h. is_exclude_section (heading_text h)) hs"

section \<open>Example inputs\<close>

definition soup_abbreviations_first :: soup where
  \<comment> \<open>a page whose first level-2 heading is \<open>Abbreviations\<close>, followed by \<open>Introduction\<close>\<close>
  "soup_abbreviations_first =
     \<lparr> main_body = None,
       headings = [ \<lparr> heading_text = ''Abbreviations'',
                      next_siblings = [(''p'', ''CI: confidence interval''), (''h2'', ''Introduction'')] \<rparr>,
                    \<lparr> heading_text = ''Introduction'',
                      next_siblings = [(''p'', ''Risk models are common.'')] \<rparr> ],
       article = None \<rparr>"

definition empty_soup :: soup where
  "empty_soup = \<lparr> main_body = None, headings = [], article = None \<rparr>"

definition scraper_404 :: scraper where
  \<comment> \<open>every line is printed, every GET is answered with status 404; the Selenium
      transport is switched on\<close>
  "scraper_404 = \<lparr> use_selenium = True, console_print = (\<lambda>l. None),
                   http_get = (\<lambda>url. HTTPError 404),
                   selenium_get = (\<lambda>url. PageSource []), parse = (\<lambda>html. empty_soup) \<rparr>"

section \<open>The chunker returns\<close>

lemma chunk_loop_returns:
  assumes "ov < cs"
  shows "\<exists>r. chunk_loop words cs ov start acc = Some r
             \<and> (acc \<noteq> [] \<or> start < int (length words) \<longrightarrow> r \<noteq> [])"
proof (induction "nat (int (length words) - start)" arbitrary: start acc rule: less_induct)
  case less
  show ?case
  proof (cases "start < int (length words)")
    case False
    then show ?thesis by (subst chunk_loop.simps) simp
  next
    case True
    let ?e = "min (start + cs) (int (length words))"
    let ?acc = "acc @ [join '' '' (slice words start ?e)]"
    show ?thesis
    proof (cases "?e = int (length words)")
      case e: True
      with True show ?thesis by (subst chunk_loop.simps) (simp add: Let_def)
    next
      case e: False
      have "nat (int (length words) - (start + (cs - ov))) < nat (int (length words) - start)"
        using True assms by linarith
      from less[OF this, of ?acc]
      obtain r where "chunk_loop words cs ov (start + (cs - ov)) ?acc = Some r" "r \<noteq> []"
        by auto
      with True e show ?thesis by (subst chunk_loop.simps) (simp add: Let_def)
    qed
  qed
qed

lemma chunk_text_v2_returns:
  "ov < cs \<Longrightarrow> \<exists>r. chunk_text_v2 t cs ov = Some r \<and> (0 \<le> cs \<longrightarrow> r \<noteq> [])"
  using chunk_loop_returns[of ov cs "split t" 0 "[]"]
  by (cases "split t = []") (auto simp: chunk_text_v2_def Let_def)

text \<open>
  C9. \<open>chunk_text_v2\<close> returns for every text whenever \<open>chunk_size_words\<close> is greater
  than \<open>overlap_words\<close>; an iteration of its loop either appends the last window and
  returns, or goes on with the start offset increased by
  \<open>chunk_size_words - overlap_words\<close>, which is a strict increase. The result is a
  function of the three arguments alone.
\<close>

theorem chunk_text_v2_terminates:
  assumes "overlap_words < chunk_size_words"
  shows "(\<exists>chunks. chunk_text_v2 text chunk_size_words overlap_words = Some chunks)
       \<and> (start < int (length words) \<longrightarrow>
            start < start + (chunk_size_words - overlap_words)
          \<and> chunk_loop words chunk_size_words overlap_words start chunks =
              (let end = min (start + chunk_size_words) (int (length words));
                   chunks' = chunks @ [join '' '' (slice words start end)]
               in if end = int (length words) then Some chunks'
                  else chunk_loop words chunk_size_words overlap_words
                         (start + (chunk_size_words - overlap_words)) chunks'))"
proof (intro conjI impI)
  show "\<exists>chunks. chunk_text_v2 text chunk_size_words overlap_words = Some chunks"
    using chunk_text_v2_returns[OF assms, of "text"] by blast
next
  show "start < start + (chunk_size_words - overlap_words)"
    using assms by simp
next
  assume "start < int (length words)"
  then show "chunk_loop words chunk_size_words overlap_words start chunks =
              (let end = min (start + chunk_size_words) (int (length words));
                   chunks' = chunks @ [join '' '' (slice words start end)]
               in if end = int (length words) then Some chunks'
                  else chunk_loop words chunk_size_words overlap_words
                         (start + (chunk_size_words - overlap_words)) chunks')"
    by (subst chunk_loop.simps) (simp add: Let_def)
qed

theorem chunk_text_v2_terminates_witness:
  "(1::int) < 4 \<and> (\<exists>chunks. chunk_text_v2 ''a b c d e f g h i j'' 4 1 = Some chunks)
   \<and> (0::int) < int (length [''a'', ''b'']) \<and> (0::int) < 0 + (4 - 1)"
  using chunk_text_v2_terminates[of 1 4 "''a b c d e f g h i j''" 0 "[''a'', ''b'']" "[]"]
  by simp

section \<open>The extraction call returns\<close>










section \<open>Identifier handling\<close>



section \<open>Fetcher\<close>

lemma not_found_message: "sublist ''not found'' (''Article not found (404): '' @ n)"
proof -
  have "''Article not found (404): '' @ n = ''Article '' @ ''not found'' @ ('' (404): '' @ n)"
    by simp
  then show ?thesis by (simp only: sublist_appendI)
qed

text \<open>
  C7. When the GET is answered with status 404, \<open>fetch_html\<close> returns no markup and
  the message \<open>Article not found (404): ...\<close>, and the GET is the only call it has made:
  the Selenium transport is not tried, whether it is switched on or not, and nothing
  is printed. For an identifier that is not empty, once the line \<open>Fetching\<close> has been
  printed, \<open>extract_full_text\<close> then returns a result with the status \<open>FAILED\<close>, no
  text, and that message, which contains \<open>not found\<close>; the GET is the only event of
  the call, so no strategy has run.
\<close>

theorem fetch_404_short_circuits:
  "(http_get sc (page_url i) = HTTPError 404 \<longrightarrow>
      fetch_html sc i
        = (Inr (None, Some (''Article not found (404): '' @ i)), [HttpGet (page_url i)]))
   \<and> (ident \<noteq> [] \<and> upper_in_range ident
      \<and> console_print sc (Fetching (normalized_id ident)) = None
      \<and> http_get sc (page_url (normalized_id ident)) = HTTPError 404 \<longrightarrow>
      (\<exists>r. extract_full_text sc ident
              = Some (Inr r, [HttpGet (page_url (normalized_id ident))])
          \<and> status r = FAILED \<and> full_text r = None \<and> full_text_chunks r = None
          \<and> method_used r = None
          \<and> error_message r = Some (''Article not found (404): '' @ normalized_id ident)
          \<and> sublist ''not found'' (''Article not found (404): '' @ normalized_id ident)))"
proof (intro conjI impI)
  assume "http_get sc (page_url i) = HTTPError 404"
  then show "fetch_html sc i
        = (Inr (None, Some (''Article not found (404): '' @ i)), [HttpGet (page_url i)])"
    by (simp add: fetch_html_def Let_def)
next
  assume a: "ident \<noteq> [] \<and> upper_in_range ident
      \<and> console_print sc (Fetching (normalized_id ident)) = None
      \<and> http_get sc (page_url (normalized_id ident)) = HTTPError 404"
  then have "fetch_html sc (normalized_id ident)
        = (Inr (None, Some (''Article not found (404): '' @ normalized_id ident)),
           [HttpGet (page_url (normalized_id ident))])"
    by (simp add: fetch_html_def Let_def)
  with a show "\<exists>r. extract_full_text sc ident
          = Some (Inr r, [HttpGet (page_url (normalized_id ident))])
          \<and> status r = FAILED \<and> full_text r = None \<and> full_text_chunks r = None
          \<and> method_used r = None
          \<and> error_message r = Some (''Article not found (404): '' @ normalized_id ident)
          \<and> sublist ''not found'' (''Article not found (404): '' @ normalized_id ident)"
    using not_found_message[of "normalized_id ident"]
    by (simp add: extract_full_text_def try_body_def handle_exception_def Let_def truthy_def
                  new_result_def)
qed

theorem fetch_404_short_circuits_witness:
  "http_get scraper_404 (page_url ''PMC123'') = HTTPError 404
   \<and> fetch_html scraper_404 ''PMC123''
       = (Inr (None, Some ''Article not found (404): PMC123''),
          [HttpGet ''https://pmc.ncbi.nlm.nih.gov/articles/PMC123/''])
   \<and> '' pmc123 '' \<noteq> [] \<and> upper_in_range '' pmc123 ''
   \<and> console_print scraper_404 (Fetching (normalized_id '' pmc123 '')) = None
   \<and> (\<exists>r. extract_full_text scraper_404 '' pmc123 ''
            = Some (Inr r, [HttpGet ''https://pmc.ncbi.nlm.nih.gov/articles/PMC123/''])
          \<and> status r = FAILED
          \<and> error_message r = Some ''Article not found (404): PMC123'')"
proof -
  have n: "normalized_id '' pmc123 '' = ''PMC123''" by code_simp
  have ur: "upper_in_range '' pmc123 ''" by code_simp
  have h: "\<And>u. http_get scraper_404 u = HTTPError 404" by (simp add: scraper_404_def)
  have c: "\<And>l. console_print scraper_404 l = None" by (simp add: scraper_404_def)
  show ?thesis
    using fetch_404_short_circuits[of scraper_404 "''PMC123''" "'' pmc123 ''"] ur
    by (auto simp: n h c page_url_def)
qed

section \<open>Strategy 2\<close>

lemma method2_loop_collected:
  "method2_loop sc hs sf parts found =
     (let live = takeWhile (\<lambda>h. \<not> is_exclude_section (heading_text h)) hs;
          coll = (if sf then live
                  else dropWhile (\<lambda>h. \<not> is_main_content_section (heading_text h)) live);
          res = Inr (parts @ map heading_part (filter (\<lambda>h. heading_content h \<noteq> []) coll),
                     found @ map heading_text coll)
      in case first_excluded hs of
           None \<Rightarrow> res
         | Some h \<Rightarrow> (case console_print sc (StoppedAt (heading_text h)) of
                        None \<Rightarrow> res
                      | Some e \<Rightarrow> Inl e))"
  by (induction hs arbitrary: sf parts found)
     (auto simp: Let_def heading_part_def heading_content_def first_excluded_def
           split: option.splits)

text \<open>
  C5, as the code has it. Strategy 2 scans the level-2/3 headings in document order and
  stops at the first heading classified as excluded, whether or not collection has
  begun; there it prints the line \<open>Stopped at\<close> with the text of that heading, and when
  that print raises, the exception is the outcome of the strategy. Otherwise, among the
  headings before that one, nothing is collected before the first heading classified as
  main-content, and every heading from that one on is recorded in \<open>sections_found\<close>
  and contributes its title and sibling text when that text is not empty. An excluded
  heading that comes before every main-content heading therefore prevents all
  collection.
\<close>

theorem method2_stops_at_first_excluded:
  "extract_method2_heading sc sp =
     (let parts = map heading_part
                    (filter (\<lambda>h. heading_content h \<noteq> []) (collected (headings sp)));
          res = Inr (if parts \<noteq> [] then Some (join [NL, NL] parts) else None,
                     map heading_text (collected (headings sp)))
      in case first_excluded (headings sp) of
           None \<Rightarrow> res
         | Some h \<Rightarrow> (case console_print sc (StoppedAt (heading_text h)) of
                        None \<Rightarrow> res
                      | Some e \<Rightarrow> Inl e))"
  by (simp add: extract_method2_heading_def method2_loop_collected collected_def Let_def
           split: option.splits)

theorem method2_stops_at_first_excluded_witness:
  "collected (headings soup_abbreviations_first) = []
   \<and> map_option heading_text (first_excluded (headings soup_abbreviations_first))
       = Some ''Abbreviations''
   \<and> console_print scraper_404 (StoppedAt ''Abbreviations'') = None
   \<and> extract_method2_heading scraper_404 soup_abbreviations_first = Inr (None, [])"
proof -
  have c: "collected (headings soup_abbreviations_first) = []" by code_simp
  have f: "first_excluded (headings soup_abbreviations_first)
             = Some (hd (headings soup_abbreviations_first))" by code_simp
  have h: "heading_text (hd (headings soup_abbreviations_first)) = ''Abbreviations''"
    by (simp add: soup_abbreviations_first_def)
  have p: "\<And>l. console_print scraper_404 l = None" by (simp add: scraper_404_def)
  show ?thesis
    using method2_stops_at_first_excluded[of scraper_404 soup_abbreviations_first]
    by (simp add: c f h p)
qed

text \<open>
  C5, as it is worded, fails: on a page whose headings are \<open>Abbreviations\<close> and then
  \<open>Introduction\<close>, the wording has the introduction collected, and the code collects
  nothing.
\<close>

theorem method2_excluded_before_start_counterexample:
  "is_exclude_section ''Abbreviations'' \<and> is_main_content_section ''Introduction''
   \<and> extract_method2_heading scraper_404 soup_abbreviations_first = Inr (None, [])
   \<and> claimed_method2_heading scraper_404 soup_abbreviations_first
       = Inr (Some (''Introduction'' @ [NL] @ ''Risk models are common.''), [''Introduction''])"
  by code_simp

section \<open>Section classifier\<close>

lemma step_suffix:
  assumes "q \<in> set (step P p)"
  shows "suffix (snd q) (snd p)" and "length (snd q) < length (snd p)"
proof -
  from assms obtain x xs where "snd p = x # xs" "q = (Some x, xs)"
    by (cases "snd p") (auto simp: step_def split: if_splits)
  then show "suffix (snd q) (snd p)" and "length (snd q) < length (snd p)"
    by (simp_all add: suffix_ConsI)
qed

lemma ms_suffix: "q \<in> set (ms ic r p) \<Longrightarrow> suffix (snd q) (snd p)"
proof (induction ic r p arbitrary: q rule: ms.induct)
  case (1 ic p)
  then show ?case by (simp add: ms_base)
next
  case (2 ic c p)
  then show ?case by (simp add: ms_base step_suffix(1))
next
  case (3 ic p)
  then show ?case by (simp add: ms_base step_suffix(1))
next
  case (4 ic p)
  then show ?case by (simp add: ms_base step_suffix(1))
next
  case (5 ic p)
  then show ?case by (simp add: ms_base step_suffix(1))
next
  case (6 ic rs p)
  then show ?case by (simp add: ms_base step_suffix(1))
next
  case (7 ic p)
  then show ?case by (simp add: ms_base split: if_splits)
next
  case (8 ic p)
  then show ?case by (simp add: ms_base split: if_splits)
next
  case (9 ic p)
  then show ?case by (simp add: ms_base split: if_splits)
next
  case (10 ic a b p)
  from 10(3) obtain q' where q': "q' \<in> set (ms ic a p)" "q \<in> set (ms ic b q')"
    by (auto simp: ms_base)
  from 10(1)[OF q'(1)] 10(2)[OF q'(1) q'(2)] show ?case
    by (rule suffix_order.trans[rotated])
next
  case (11 ic a b p)
  from 11(3) have "q \<in> set (ms ic a p) \<or> q \<in> set (ms ic b p)"
    by (simp add: ms_base)
  with 11(1,2) show ?case by blast
next
  case (12 ic a p)
  have eq: "ms ic (Star a) p = concat (map (\<lambda>q. if length (snd q) < length (snd p) then ms ic (Star a) q else []) (ms ic a p)) @ [p]"
    by (rule ms_Star)
  have "q \<in> set (concat (map (\<lambda>q. if length (snd q) < length (snd p) then ms ic (Star a) q else []) (ms ic a p)) @ [p])"
    using 12(3) unfolding eq .
  then have "q = p \<or> (\<exists>q'. q' \<in> set (ms ic a p) \<and> length (snd q') < length (snd p) \<and> q \<in> set (ms ic (Star a) q'))"
    by (auto split: if_splits)
  then show ?case
  proof
    assume "q = p"
    then show ?thesis by (simp only: suffix_order.refl)
  next
    assume "\<exists>q'. q' \<in> set (ms ic a p) \<and> length (snd q') < length (snd p) \<and> q \<in> set (ms ic (Star a) q')"
    then obtain q' where q': "q' \<in> set (ms ic a p)" "length (snd q') < length (snd p)" "q \<in> set (ms ic (Star a) q')"
      by blast
    from 12(1)[OF q'(1)] 12(2)[OF q'(1) q'(2) q'(3)] show ?thesis
      by (rule suffix_order.trans[rotated])
  qed
qed

lemma ends_with_Eol_Seq:
  "ends_with_Eol (Seq a b) = (if b = Epsilon then a = Eol else ends_with_Eol b)"
  by (cases b) auto

lemma ends_with_Eol_at_end: "ends_with_Eol r \<Longrightarrow> q \<in> set (ms ic r p) \<Longrightarrow> at_end q"
proof (induction r arbitrary: p q)
  case (Seq a b)
  from Seq.prems(2) obtain q' where q': "q' \<in> set (ms ic a p)" "q \<in> set (ms ic b q')"
    by (auto simp: ms_base)
  show ?case
  proof (cases "b = Epsilon")
    case True
    with Seq.prems(1) have "a = Eol" by (simp add: ends_with_Eol_Seq)
    with True q' show ?thesis by (auto simp: ms_base split: if_splits)
  next
    case False
    with Seq.prems(1) have "ends_with_Eol b" by (simp add: ends_with_Eol_Seq)
    from Seq.IH(2)[OF this q'(2)] show ?thesis .
  qed
qed simp_all

lemma exclude_table_shape:
  "list_all ends_with_Eol (take 18 EXCLUDE_SECTION_PATTERNS @ drop 19 EXCLUDE_SECTION_PATTERNS)"
  by code_simp

lemma exclude_table_split:
  "EXCLUDE_SECTION_PATTERNS
     = take 18 EXCLUDE_SECTION_PATTERNS @ DATA_AVAILABILITY_PATTERN # drop 19 EXCLUDE_SECTION_PATTERNS"
  by (simp add: EXCLUDE_SECTION_PATTERNS_def)

lemma lower_char_NL: "lower_char c = NL \<Longrightarrow> c = NL"
proof (rule ccontr)
  assume a: "lower_char c = NL" and "c \<noteq> NL"
  then have c: "(65 \<le> code c \<and> code c \<le> 90) \<or> (192 \<le> code c \<and> code c \<le> 214)
                \<or> (216 \<le> code c \<and> code c \<le> 222)"
    and e: "(char_of (code c + 32) :: char) = NL"
    by (auto simp: lower_char_def Let_def split: if_splits)
  from e have "(of_char (char_of (code c + 32) :: char) :: nat) = of_char NL" by simp
  then have "(code c + 32) mod 256 = 10" by (simp add: NL_def)
  with c show False by auto
qed

lemma rstrip_last: "rstrip s \<noteq> [] \<Longrightarrow> \<not> is_space (last (rstrip s))"
proof -
  assume a: "rstrip s \<noteq> []"
  then have n: "dropWhile is_space (rev s) \<noteq> []" by (simp add: rstrip_def)
  then have "\<not> is_space (hd (dropWhile is_space (rev s)))" by (rule hd_dropWhile)
  moreover have "last (rstrip s) = hd (dropWhile is_space (rev s))"
    using n by (simp add: rstrip_def last_rev)
  ultimately show ?thesis by simp
qed

lemma title_clean_no_NL: "\<not> suffix [NL] (lower (strip s))"
proof
  assume "suffix [NL] (lower (strip s))"
  then obtain ys where ys: "lower (strip s) = ys @ [NL]" by (auto simp: suffix_def)
  then have ne: "strip s \<noteq> []" by (auto simp: lower_def)
  from ys have "last (lower (strip s)) = NL" by simp
  then have "lower_char (last (strip s)) = NL" using ne by (simp add: lower_def last_map)
  then have "last (strip s) = NL" by (rule lower_char_NL)
  moreover have "is_space NL" by code_simp
  moreover have "\<not> is_space (last (strip s))"
    using ne rstrip_last[of "lstrip s"] by (simp add: strip_def)
  ultimately show False by simp
qed

lemma fullmatch_match: "fullmatch ic p t \<Longrightarrow> re_match ic p t \<noteq> None"
  by (cases "ms ic p (None, t)") (auto simp: fullmatch_def re_match_def)

lemma anchored_match:
  assumes "ends_with_Eol p" and "\<not> suffix [NL] t"
  shows "(re_match ic p t \<noteq> None) = fullmatch ic p t"
proof
  assume "re_match ic p t \<noteq> None"
  then obtain q qs where q: "ms ic p (None, t) = q # qs"
    by (cases "ms ic p (None, t)") (auto simp: re_match_def)
  then have m: "q \<in> set (ms ic p (None, t))" by simp
  from ends_with_Eol_at_end[OF assms(1) m] have "snd q = [] \<or> snd q = [NL]"
    by (simp add: at_end_def NL_def)
  moreover from ms_suffix[OF m] have "suffix (snd q) t" by simp
  ultimately have "snd q = []" using assms(2) by auto
  with q show "fullmatch ic p t" by (simp add: fullmatch_def)
next
  assume "fullmatch ic p t"
  then show "re_match ic p t \<noteq> None" by (rule fullmatch_match)
qed

lemma any_match_iff: "any_match ps t = list_ex (\<lambda>p. re_match True p t \<noteq> None) ps"
  by (induction ps) auto

lemma anchored_list:
  assumes "list_all ends_with_Eol ps" and "\<not> suffix [NL] t"
  shows "list_ex (\<lambda>p. re_match True p t \<noteq> None) ps = list_ex (\<lambda>p. fullmatch True p t) ps"
  using assms(1)
proof (induction ps)
  case Nil
  show ?case by simp
next
  case (Cons p ps)
  then have e: "ends_with_Eol p" "list_all ends_with_Eol ps" by simp_all
  from anchored_match[OF e(1) assms(2), of True] Cons.IH[OF e(2)]
  show ?case by (simp only: list_ex_Nil_iff list_ex_Cons_iff)
qed

lemma exclude_table_match:
  assumes "\<not> suffix [NL] t"
  shows "any_match EXCLUDE_SECTION_PATTERNS t
           = (list_ex (\<lambda>p. fullmatch True p t) EXCLUDE_SECTION_PATTERNS
              \<or> re_match True DATA_AVAILABILITY_PATTERN t \<noteq> None)"
proof -
  let ?A = "take 18 EXCLUDE_SECTION_PATTERNS" and ?B = "drop 19 EXCLUDE_SECTION_PATTERNS"
  let ?rm = "\<lambda>p. re_match True p t \<noteq> None" and ?fm = "\<lambda>p. fullmatch True p t"
  from exclude_table_shape have s: "list_all ends_with_Eol ?A" "list_all ends_with_Eol ?B"
    by simp_all
  have a: "list_ex ?rm ?A = list_ex ?fm ?A" "list_ex ?rm ?B = list_ex ?fm ?B"
    using anchored_list[OF s(1) assms] anchored_list[OF s(2) assms] by simp_all
  have "any_match EXCLUDE_SECTION_PATTERNS t
          = list_ex ?rm (?A @ DATA_AVAILABILITY_PATTERN # ?B)"
    by (subst exclude_table_split) (simp only: any_match_iff)
  also have "\<dots> = (list_ex ?fm ?A \<or> ?rm DATA_AVAILABILITY_PATTERN \<or> list_ex ?fm ?B)"
    by (simp only: list_ex_append list_ex_Nil_iff list_ex_Cons_iff a)
  finally have l: "any_match EXCLUDE_SECTION_PATTERNS t
          = (list_ex ?fm ?A \<or> ?rm DATA_AVAILABILITY_PATTERN \<or> list_ex ?fm ?B)" .
  have "list_ex ?fm EXCLUDE_SECTION_PATTERNS
          = list_ex ?fm (?A @ DATA_AVAILABILITY_PATTERN # ?B)"
    by (subst exclude_table_split) (rule refl)
  also have "\<dots> = (list_ex ?fm ?A \<or> ?fm DATA_AVAILABILITY_PATTERN \<or> list_ex ?fm ?B)"
    by (simp only: list_ex_append list_ex_Nil_iff list_ex_Cons_iff)
  finally have r: "list_ex ?fm EXCLUDE_SECTION_PATTERNS
          = (list_ex ?fm ?A \<or> ?fm DATA_AVAILABILITY_PATTERN \<or> list_ex ?fm ?B)" .
  show ?thesis unfolding l r using fullmatch_match[of True DATA_AVAILABILITY_PATTERN t] by blast
qed

text \<open>
  C3, as the code has it. A title is classified as excluded exactly when, trimmed and
  lower-cased, it fully matches some pattern of the exclude table, or it begins with
  a match of the pattern \<open>^data\s*availability\<close>, the one entry of the table that has
  no final anchor: whatever follows \<open>data availability\<close> is then ignored. So
  \<open>References and Notes\<close> is not classified as excluded, and
  \<open>Data Availability Statement\<close> is.
\<close>

theorem is_exclude_section_anchored:
  "(is_exclude_section title \<longleftrightarrow>
      is_excluded_fullmatch title
      \<or> (\<exists>n. re_match True DATA_AVAILABILITY_PATTERN (lower (strip title)) = Some n))
   \<and> \<not> is_exclude_section ''References and Notes''
   \<and> is_exclude_section ''Data Availability Statement''"
proof (intro conjI)
  show "is_exclude_section title \<longleftrightarrow>
      is_excluded_fullmatch title
      \<or> (\<exists>n. re_match True DATA_AVAILABILITY_PATTERN (lower (strip title)) = Some n)"
  proof (cases "title = []")
    case True
    have "\<not> is_excluded_fullmatch []" by code_simp
    moreover have "re_match True DATA_AVAILABILITY_PATTERN (lower (strip [])) = None" by code_simp
    ultimately show ?thesis using True by (simp add: is_exclude_section_def)
  next
    case False
    then show ?thesis
      using exclude_table_match[OF title_clean_no_NL, of title]
      by (simp add: is_exclude_section_def is_excluded_fullmatch_def Let_def)
  qed
  show "\<not> is_exclude_section ''References and Notes''" by code_simp
  show "is_exclude_section ''Data Availability Statement''" by code_simp
qed

theorem is_exclude_section_anchored_witness:
  "is_exclude_section ''Data Availability Statement''
   \<and> re_match True DATA_AVAILABILITY_PATTERN (lower (strip ''Data Availability Statement''))
       = Some 17
   \<and> \<not> is_exclude_section ''Funding body''
   \<and> \<not> is_excluded_fullmatch ''Funding body''"
proof -
  have a: "re_match True DATA_AVAILABILITY_PATTERN (lower (strip ''Data Availability Statement''))
             = Some 17" by code_simp
  have b: "\<not> is_excluded_fullmatch ''Funding body''" by code_simp
  have c: "re_match True DATA_AVAILABILITY_PATTERN (lower (strip ''Funding body'')) = None"
    by code_simp
  show ?thesis
    using is_exclude_section_anchored[of "''Data Availability Statement''"]
          is_exclude_section_anchored[of "''Funding body''"]
    by (simp add: a b c)
qed

text \<open>
  C3, as it is worded, fails: \<open>Data Availability Statement\<close> is classified as
  excluded although it fully matches no pattern of the table.
\<close>

theorem data_availability_statement_counterexample:
  "is_exclude_section ''Data Availability Statement''
   \<and> \<not> is_excluded_fullmatch ''Data Availability Statement''"
  by code_simp

end
